theory Spec2Isabelle
  imports Complex_Main
begin

section \<open>The distance and orientation controller of Controller.py\<close>

text \<open>
  The node \<^verbatim>\<open>Controller\<close> of \<^verbatim>\<open>src/In PC/Controller.py\<close> subscribes to two topics and
  publishes velocity commands. Its two callbacks are modelled as functions from the
  object's fields to the object's fields. Python floats are read as real numbers, so the
  theorems are about the branch logic and the arithmetic of the callbacks, not about
  rounding. The calls to \<^verbatim>\<open>print\<close> are left out.
\<close>

subsection \<open>Messages\<close>

text \<open>\<^verbatim>\<open>geometry_msgs.msg.Vector3\<close> and \<^verbatim>\<open>geometry_msgs.msg.Twist\<close>. The field
  \<^verbatim>\<open>linear\<close> of a Twist is called \<open>linear_vel\<close> here (and \<^verbatim>\<open>angular\<close> is \<open>angular_vel\<close>),
  since \<open>linear\<close> is a constant of the library.\<close>

record Vector3 =
  x :: real
  y :: real
  z :: real

record Twist =
  linear_vel :: Vector3
  angular_vel :: Vector3

text \<open>\<^verbatim>\<open>Vector3()\<close> and \<^verbatim>\<open>Twist()\<close>: every component is zero.\<close>

definition Vector3_default :: Vector3 where
  "Vector3_default = \<lparr>x = 0, y = 0, z = 0\<rparr>"

definition Twist_default :: Twist where
  "Twist_default = \<lparr>linear_vel = Vector3_default, angular_vel = Vector3_default\<rparr>"

subsection \<open>The PID objects\<close>

text \<open>
  \<^verbatim>\<open>simple_pid.PID\<close> is a library class: the source only constructs two instances and
  calls them. An instance is its configuration together with the library's private
  memory, of a type \<open>'p\<close> left open, and the call \<^verbatim>\<open>pid(input)\<close> is a parameter \<open>call\<close> of
  every function below: it returns the control signal and the instance after the call.
\<close>

record 'p PID =
  Kp :: real
  Ki :: real
  Kd :: real
  setpoint :: real
  memory :: 'p

type_synonym 'p pid_call = "'p PID \<Rightarrow> real \<Rightarrow> real \<times> 'p PID"

subsection \<open>The node\<close>

text \<open>
  The fields of \<^verbatim>\<open>Controller.__init__\<close>, and two fields for what the node does to the
  outside: \<open>cmd_vel\<close> holds the messages passed to \<^verbatim>\<open>publisher_velocity.publish\<close>, oldest
  first, and \<open>node_destroyed\<close> says that \<^verbatim>\<open>destroy_node\<close> has been called.
\<close>

record 'p Controller =
  time :: "int list"
  distance_errors :: "real list"
  orientation_errors :: "real list"
  right_turns :: int
  left_turns :: int
  distance_condition_met :: bool
  angle_condition_met :: bool
  pid_distance :: "'p PID"
  pid_orientation :: "'p PID"
  target_reached :: bool
  keyboard_interrupt_occurred :: bool
  angle_correct :: bool
  distance_correct :: bool
  cmd_vel :: "Twist list"
  node_destroyed :: bool

text \<open>\<^verbatim>\<open>Controller.__init__\<close> (lines 8 to 47); \<open>p0\<close> is the memory of a fresh PID instance.\<close>

definition Controller_init :: "'p \<Rightarrow> 'p Controller" where
  "Controller_init p0 =
     \<lparr>time = [], distance_errors = [], orientation_errors = [],
      right_turns = 0, left_turns = 0,
      distance_condition_met = False, angle_condition_met = False,
      pid_distance = \<lparr>Kp = 1.0, Ki = 0.2, Kd = 0.0, setpoint = 6.0, memory = p0\<rparr>,
      pid_orientation = \<lparr>Kp = 0.5, Ki = 0.1, Kd = 0.5, setpoint = 0.0, memory = p0\<rparr>,
      target_reached = False,
      keyboard_interrupt_occurred = False,
      angle_correct = False, distance_correct = False,
      cmd_vel = [], node_destroyed = False\<rparr>"

text \<open>
  \<^verbatim>\<open>self.publisher_velocity.publish(twist)\<close> and \<^verbatim>\<open>self.destroy_node()\<close>. Both are calls
  into \<^verbatim>\<open>rclpy\<close>, and the model records them: \<open>publish\<close> appends the message of the call
  to \<open>cmd_vel\<close>, on a destroyed node too. What the library does with a call depends on
  the node: \<^verbatim>\<open>destroy_node\<close> frees the publishers of the node, and a call of
  \<^verbatim>\<open>publish\<close> on a freed publisher raises and sends nothing. The predicate \<open>sends\<close> below
  reads the record with that contract.
\<close>

definition publish :: "Twist \<Rightarrow> 'p Controller \<Rightarrow> 'p Controller" where
  "publish twist self = self\<lparr>cmd_vel := cmd_vel self @ [twist]\<rparr>"

definition destroy_node :: "'p Controller \<Rightarrow> 'p Controller" where
  "destroy_node self = self\<lparr>node_destroyed := True\<rparr>"

subsection \<open>Python's \<^verbatim>\<open>abs\<close> of a comparison\<close>

text \<open>
  Line 88 reads \<^verbatim>\<open>elif abs(distance_error < 0):\<close>. The comparison is a \<^verbatim>\<open>bool\<close>, \<^verbatim>\<open>abs\<close> of
  a bool is the absolute value of the integer it stands for (\<^verbatim>\<open>True\<close> is 1, \<^verbatim>\<open>False\<close> is 0),
  and an integer is true in a condition when it is not zero.
\<close>

definition int_of_bool :: "bool \<Rightarrow> int" where
  "int_of_bool b = (if b then 1 else 0)"

definition abs_bool :: "bool \<Rightarrow> int" where
  "abs_bool b = \<bar>int_of_bool b\<bar>"

definition truthy :: "int \<Rightarrow> bool" where
  "truthy n = (n \<noteq> 0)"

subsection \<open>The callbacks\<close>

text \<open>\<^verbatim>\<open>Controller.check_target_reached\<close> (lines 152 to 157).\<close>

definition check_target_reached :: "'p Controller \<Rightarrow> 'p Controller" where
  "check_target_reached self =
     (if distance_correct self \<and> angle_correct self then
        destroy_node (self\<lparr>target_reached := True\<rparr>)
      else self)"

text \<open>\<^verbatim>\<open>Controller.distance_callback\<close> (lines 49 to 97). The call of \<^verbatim>\<open>publish\<close> on line 97
  is in the body of the outer \<^verbatim>\<open>if\<close>, after the \<^verbatim>\<open>if\<close>/\<^verbatim>\<open>elif\<close>: every branch reaches it.\<close>

definition distance_callback :: "'p pid_call \<Rightarrow> Vector3 \<Rightarrow> 'p Controller \<Rightarrow> 'p Controller" where
  "distance_callback call msg self =
     (if \<not> target_reached self then
        let distance_variation = x msg;
            distance_error = distance_variation - 13.0;
            (control_signal, pid) = call (pid_distance self) distance_error;
            self = self\<lparr>pid_distance := pid\<rparr>;
            control_signal = max (min control_signal 0.2) (- 0.2);
            self = self\<lparr>time := time self @ [int (length (time self))]\<rparr>;
            self = self\<lparr>distance_errors := distance_errors self @ [distance_error]\<rparr>;
            twist = Twist_default
        in if control_signal < 0 \<or> distance_error > 0.3 then
             let twist = twist\<lparr>linear_vel := (linear_vel twist)\<lparr>x := control_signal\<rparr>\<rparr>;
                 self = self\<lparr>distance_correct := (0 < distance_error \<and> distance_error < 0.3)\<rparr>
             in if angle_correct self \<and> 0 < distance_error \<and> distance_error < 0.3 then
                  let self = self\<lparr>target_reached := True\<rparr>;
                      self = self\<lparr>angle_correct := False\<rparr>;
                      self = destroy_node self
                  in publish twist self
                else publish twist self
           else if truthy (abs_bool (distance_error < 0)) then
             let self = self\<lparr>distance_correct := False\<rparr>;
                 twist = twist\<lparr>linear_vel := (linear_vel twist)\<lparr>x := - control_signal\<rparr>\<rparr>
             in publish twist self
           else publish twist self
      else self)"

text \<open>\<^verbatim>\<open>Controller.angles_callback\<close> (lines 101 to 150).\<close>

definition angles_callback :: "'p pid_call \<Rightarrow> Vector3 \<Rightarrow> 'p Controller \<Rightarrow> 'p Controller" where
  "angles_callback call msg self =
     (if \<not> target_reached self then
        let angle_variation = y msg in
        if 0 < \<bar>angle_variation\<bar> \<and> \<bar>angle_variation\<bar> \<le> 0.055 then
          let twist_angular_z = 0.0;
              self = self\<lparr>orientation_errors := orientation_errors self @ [angle_variation]\<rparr>;
              twist = Twist_default;
              twist = twist\<lparr>angular_vel := (angular_vel twist)\<lparr>z := twist_angular_z\<rparr>\<rparr>;
              self = self\<lparr>angle_correct := True\<rparr>
          in publish twist self
        else
          let (control_signal, pid) = call (pid_orientation self) angle_variation;
              self = self\<lparr>pid_orientation := pid\<rparr>;
              control_signal = max (min control_signal 0.1) (- 0.1);
              twist_angular_z = - control_signal;
              self = self\<lparr>orientation_errors := orientation_errors self @ [angle_variation]\<rparr>;
              twist = Twist_default;
              twist = twist\<lparr>angular_vel := (angular_vel twist)\<lparr>z := twist_angular_z\<rparr>\<rparr>;
              self = (if twist_angular_z < 0.0 then self\<lparr>left_turns := left_turns self + 1\<rparr>
                      else if twist_angular_z > 0.0 then self\<lparr>right_turns := right_turns self + 1\<rparr>
                      else self);
              self = publish twist self;
              self = self\<lparr>angle_correct := False\<rparr>
          in check_target_reached self
      else self)"

subsection \<open>The callbacks, statement by statement\<close>

text \<open>
  Two of the properties below are about an instant inside a callback. For them each
  callback is given a second time as the list of the node's states after each of its
  statements that changes a field or acts on the outside, in the order of the source;
  a callback that returns at once gives the empty list. Lemmas \<open>distance_callback_last\<close>,
  \<open>angles_callback_last\<close> and \<open>check_target_reached_last\<close> say that the last state of the
  list is the result of the callback.
\<close>

definition check_target_reached_steps :: "'p Controller \<Rightarrow> 'p Controller list" where
  "check_target_reached_steps self =
     (if distance_correct self \<and> angle_correct self then
        let s1 = self\<lparr>target_reached := True\<rparr>;
            s2 = destroy_node s1
        in [s1, s2]
      else [])"

definition distance_callback_steps ::
    "'p pid_call \<Rightarrow> Vector3 \<Rightarrow> 'p Controller \<Rightarrow> 'p Controller list" where
  "distance_callback_steps call msg self =
     (if \<not> target_reached self then
        let distance_variation = x msg;
            distance_error = distance_variation - 13.0;
            (control_signal, pid) = call (pid_distance self) distance_error;
            s1 = self\<lparr>pid_distance := pid\<rparr>;
            control_signal = max (min control_signal 0.2) (- 0.2);
            s2 = s1\<lparr>time := time s1 @ [int (length (time s1))]\<rparr>;
            s3 = s2\<lparr>distance_errors := distance_errors s2 @ [distance_error]\<rparr>;
            twist = Twist_default
        in if control_signal < 0 \<or> distance_error > 0.3 then
             let twist = twist\<lparr>linear_vel := (linear_vel twist)\<lparr>x := control_signal\<rparr>\<rparr>;
                 s4 = s3\<lparr>distance_correct := (0 < distance_error \<and> distance_error < 0.3)\<rparr>
             in if angle_correct s4 \<and> 0 < distance_error \<and> distance_error < 0.3 then
                  let s5 = s4\<lparr>target_reached := True\<rparr>;
                      s6 = s5\<lparr>angle_correct := False\<rparr>;
                      s7 = destroy_node s6
                  in [s1, s2, s3, s4, s5, s6, s7, publish twist s7]
                else [s1, s2, s3, s4, publish twist s4]
           else if truthy (abs_bool (distance_error < 0)) then
             let s4 = s3\<lparr>distance_correct := False\<rparr>;
                 twist = twist\<lparr>linear_vel := (linear_vel twist)\<lparr>x := - control_signal\<rparr>\<rparr>
             in [s1, s2, s3, s4, publish twist s4]
           else [s1, s2, s3, publish twist s3]
      else [])"

definition angles_callback_steps ::
    "'p pid_call \<Rightarrow> Vector3 \<Rightarrow> 'p Controller \<Rightarrow> 'p Controller list" where
  "angles_callback_steps call msg self =
     (if \<not> target_reached self then
        let angle_variation = y msg in
        if 0 < \<bar>angle_variation\<bar> \<and> \<bar>angle_variation\<bar> \<le> 0.055 then
          let twist_angular_z = 0.0;
              s1 = self\<lparr>orientation_errors := orientation_errors self @ [angle_variation]\<rparr>;
              twist = Twist_default;
              twist = twist\<lparr>angular_vel := (angular_vel twist)\<lparr>z := twist_angular_z\<rparr>\<rparr>;
              s2 = s1\<lparr>angle_correct := True\<rparr>
          in [s1, s2, publish twist s2]
        else
          let (control_signal, pid) = call (pid_orientation self) angle_variation;
              s1 = self\<lparr>pid_orientation := pid\<rparr>;
              control_signal = max (min control_signal 0.1) (- 0.1);
              twist_angular_z = - control_signal;
              s2 = s1\<lparr>orientation_errors := orientation_errors s1 @ [angle_variation]\<rparr>;
              twist = Twist_default;
              twist = twist\<lparr>angular_vel := (angular_vel twist)\<lparr>z := twist_angular_z\<rparr>\<rparr>;
              s3 = (if twist_angular_z < 0.0 then s2\<lparr>left_turns := left_turns s2 + 1\<rparr>
                    else if twist_angular_z > 0.0 then s2\<lparr>right_turns := right_turns s2 + 1\<rparr>
                    else s2);
              s4 = publish twist s3;
              s5 = s4\<lparr>angle_correct := False\<rparr>
          in [s1, s2, s3, s4, s5] @ check_target_reached_steps s5
      else [])"

subsection \<open>Runs\<close>

text \<open>
  \<^verbatim>\<open>rclpy.spin\<close> hands each arriving message to the callback of its topic, one callback at
  a time. A run is the list of the messages in the order of their arrival.
\<close>

datatype event = Distance Vector3 | Angle Vector3

fun dispatch :: "'p pid_call \<Rightarrow> event \<Rightarrow> 'p Controller \<Rightarrow> 'p Controller" where
  "dispatch call (Distance msg) self = distance_callback call msg self"
| "dispatch call (Angle msg) self = angles_callback call msg self"

fun dispatch_steps :: "'p pid_call \<Rightarrow> event \<Rightarrow> 'p Controller \<Rightarrow> 'p Controller list" where
  "dispatch_steps call (Distance msg) self = distance_callback_steps call msg self"
| "dispatch_steps call (Angle msg) self = angles_callback_steps call msg self"

fun spin :: "'p pid_call \<Rightarrow> event list \<Rightarrow> 'p Controller \<Rightarrow> 'p Controller" where
  "spin call [] self = self"
| "spin call (e # es) self = spin call es (dispatch call e self)"

fun spin_steps :: "'p pid_call \<Rightarrow> event list \<Rightarrow> 'p Controller \<Rightarrow> 'p Controller list" where
  "spin_steps call [] self = []"
| "spin_steps call (e # es) self =
     dispatch_steps call e self @ spin_steps call es (dispatch call e self)"

subsection \<open>An instance of the PID call\<close>

text \<open>
  To run the callbacks on concrete messages the parameter \<open>call\<close> needs a value. The one
  below follows the documented computation of \<^verbatim>\<open>simple_pid\<close> with its default options
  and one unit of time between two calls: the error is the setpoint minus the input, the
  integral term grows by \<open>Ki * error\<close>, the derivative term is \<open>- Kd\<close> times the change of
  the input since the last call, and the output is the sum of the three terms. The
  memory is the integral term and the last input. No theorem stated for every \<open>call\<close>
  depends on it.
\<close>

definition pid_unit_dt :: "(real \<times> real option) pid_call" where
  "pid_unit_dt pid input =
     (let error = setpoint pid - input;
          (integral, last_input) = memory pid;
          d_input = input - (case last_input of None \<Rightarrow> input | Some l \<Rightarrow> l);
          proportional = Kp pid * error;
          integral = integral + Ki pid * error;
          derivative = - Kd pid * d_input
      in (proportional + integral + derivative, pid\<lparr>memory := (integral, Some input)\<rparr>))"

definition pid_memory0 :: "real \<times> real option" where
  "pid_memory0 = (0, None)"

text \<open>The messages of the runs used below; only \<open>x\<close> of a distance message and \<open>y\<close> of an
  angle message are read.\<close>

definition distance_msg :: "real \<Rightarrow> Vector3" where
  "distance_msg d = \<lparr>x = d, y = 0, z = 0\<rparr>"

definition angle_msg :: "real \<Rightarrow> Vector3" where
  "angle_msg a = \<lparr>x = 0, y = a, z = 0\<rparr>"

subsection \<open>Predicates and runs used in the statements\<close>

text \<open>Two successive states of a trace respect the rendezvous when a change of
  \<open>target_reached\<close> from false to true between them finds both convergence flags true,
  before and after the assignment.\<close>

definition rendezvous :: "'p Controller \<Rightarrow> 'p Controller \<Rightarrow> bool" where
  "rendezvous a b =
     (\<not> target_reached a \<and> target_reached b \<longrightarrow>
        distance_correct a \<and> angle_correct a \<and> distance_correct b \<and> angle_correct b)"

text \<open>The number of published commands whose angular velocity satisfies \<open>P\<close>.\<close>

definition count_cmds :: "(real \<Rightarrow> bool) \<Rightarrow> 'p Controller \<Rightarrow> int" where
  "count_cmds P self = int (length (filter (\<lambda>t. P (z (angular_vel t))) (cmd_vel self)))"

definition turns_counted :: "'p Controller \<Rightarrow> bool" where
  "turns_counted self =
     (left_turns self = count_cmds (\<lambda>v. v < 0) self \<and>
      right_turns self = count_cmds (\<lambda>v. 0 < v) self)"

text \<open>A command within the speed limit of line 60 and the turn limit of line 129.\<close>

definition cmd_bounded :: "Twist \<Rightarrow> bool" where
  "cmd_bounded t = (\<bar>x (linear_vel t)\<bar> \<le> 0.2 \<and> \<bar>z (angular_vel t)\<bar> \<le> 0.1)"

text \<open>
  Three runs. In \<open>run_reach\<close> the angle enters its dead band, a far distance sample
  drives the integral term of the distance PID down, and a sample 0.125 above the
  offset then meets a negative control signal: the inline check of the distance
  callback fires. \<open>run_near\<close> is the same without the angle sample. \<open>run_turns\<close> is the
  angle scenario of the specification.
\<close>

definition run_reach :: "event list" where
  "run_reach =
     [Angle (angle_msg 0.03125), Distance (distance_msg 73), Distance (distance_msg 13.125)]"

definition run_near :: "event list" where
  "run_near = [Distance (distance_msg 73), Distance (distance_msg 13.125)]"

definition run_turns :: "event list" where
  "run_turns = [Angle (angle_msg 0.2), Angle (angle_msg (- 0.15)), Angle (angle_msg 0.03)]"

text \<open>The node at its start with the PID instance above, and the trace of \<open>run_reach\<close>,
  statement by statement, from there.\<close>

definition node0 :: "(real \<times> real option) Controller" where
  "node0 = Controller_init pid_memory0"

definition trace_reach :: "(real \<times> real option) Controller list" where
  "trace_reach = node0 # spin_steps pid_unit_dt run_reach node0"

text \<open>
  A step from \<open>a\<close> to \<open>b\<close> sends a command when it is a call of \<open>publish\<close> (the record
  \<open>cmd_vel\<close> grows) on a node that is not destroyed. A step is terminal-safe when from a
  state with \<open>target_reached\<close> it keeps the flag and sends nothing. A state is live when
  its node is destroyed only if the target is reached.
\<close>

definition sends :: "'p Controller \<Rightarrow> 'p Controller \<Rightarrow> bool" where
  "sends a b = (\<not> node_destroyed a \<and> cmd_vel b \<noteq> cmd_vel a)"

definition terminal :: "'p Controller \<Rightarrow> 'p Controller \<Rightarrow> bool" where
  "terminal a b = (target_reached a \<longrightarrow> target_reached b \<and> \<not> sends a b)"

definition live :: "'p Controller \<Rightarrow> bool" where
  "live self = (node_destroyed self \<longrightarrow> target_reached self)"

section \<open>Properties\<close>

subsection \<open>The two readings of a callback agree\<close>

lemma last_cons_cons: "last (a # b # xs) = last (b # xs)"
  by simp

lemma last_single: "last [a] = a"
  by simp

lemma last_cons_if:
  "last (a # (if c then xs else ys)) = (if c then last (a # xs) else last (a # ys))"
  by simp

lemma last_cons_append: "last (a # xs @ ys) = last (last (a # xs) # ys)"
  by (cases ys) simp_all

lemma check_target_reached_last:
  "last (self # check_target_reached_steps self) = check_target_reached self"
  unfolding check_target_reached_steps_def check_target_reached_def Let_def
  by (simp only: last_cons_if last_cons_cons last_single)

lemma distance_callback_last:
  "last (self # distance_callback_steps call msg self) = distance_callback call msg self"
  unfolding distance_callback_steps_def distance_callback_def Let_def split_beta
  by (simp only: last_cons_if last_cons_cons last_single)

lemma angles_callback_last:
  "last (self # angles_callback_steps call msg self) = angles_callback call msg self"
  unfolding angles_callback_steps_def angles_callback_def Let_def split_beta
  by (simp only: last_cons_if last_cons_cons last_single append.simps
      check_target_reached_last)

lemma dispatch_last: "last (self # dispatch_steps call e self) = dispatch call e self"
proof (cases e)
  case (Distance msg)
  then show ?thesis using distance_callback_last [of self call msg] by simp
next
  case (Angle msg)
  then show ?thesis using angles_callback_last [of self call msg] by simp
qed

lemma spin_steps_last: "last (self # spin_steps call evs self) = spin call evs self"
proof (induction evs arbitrary: self)
  case Nil
  show ?case by simp
next
  case (Cons e es)
  have "last (self # spin_steps call (e # es) self)
      = last (self # dispatch_steps call e self @ spin_steps call es (dispatch call e self))"
    by simp
  also have "\<dots> = last (last (self # dispatch_steps call e self)
                        # spin_steps call es (dispatch call e self))"
    by (rule last_cons_append)
  also have "\<dots> = last (dispatch call e self # spin_steps call es (dispatch call e self))"
    by (simp only: dispatch_last)
  also have "\<dots> = spin call (e # es) self"
    using Cons.IH [of "dispatch call e self"] by simp
  finally show ?case .
qed

lemma spin_append: "spin call (es @ fs) self = spin call fs (spin call es self)"
  by (induction es arbitrary: self) simp_all

lemma truthy_abs_bool: "truthy (abs_bool b) = b"
  by (simp add: truthy_def abs_bool_def int_of_bool_def)

subsection \<open>After the target is reached\<close>

lemma spin_target_reached: "target_reached self \<Longrightarrow> spin call evs self = self"
proof (induction evs)
  case Nil
  show ?case by simp
next
  case (Cons e es)
  have "dispatch call e self = self"
    using Cons.prems by (cases e) (simp_all add: distance_callback_def angles_callback_def)
  with Cons show ?case by simp
qed

lemma angles_callback_target_reached:
  "target_reached (angles_callback call msg self) = target_reached self"
  by (simp add: angles_callback_def check_target_reached_def Let_def split_beta publish_def
      destroy_node_def)

subsection \<open>The rendezvous along a trace\<close>

lemma rendezvous_check:
  "successively rendezvous (self # check_target_reached_steps self)"
  by (simp add: check_target_reached_steps_def Let_def destroy_node_def rendezvous_def)

lemma rendezvous_distance:
  "successively rendezvous (self # distance_callback_steps call msg self)"
  by (simp add: distance_callback_steps_def Let_def split_beta destroy_node_def publish_def
      rendezvous_def)

lemma rendezvous_angles:
  "successively rendezvous (self # angles_callback_steps call msg self)"
  by (simp add: angles_callback_steps_def check_target_reached_steps_def Let_def split_beta
      destroy_node_def publish_def rendezvous_def)

lemma successively_cons_append:
  "successively P (a # xs) \<Longrightarrow> successively P (last (a # xs) # ys)
   \<Longrightarrow> successively P (a # xs @ ys)"
  by (induction xs arbitrary: a) (simp_all add: successively_Cons)

lemma rendezvous_dispatch: "successively rendezvous (self # dispatch_steps call e self)"
  by (cases e) (simp_all only: dispatch_steps.simps rendezvous_distance rendezvous_angles)

lemma rendezvous_spin: "successively rendezvous (self # spin_steps call evs self)"
proof (induction evs arbitrary: self)
  case Nil
  show ?case by simp
next
  case (Cons e es)
  have "successively rendezvous
          (last (self # dispatch_steps call e self) # spin_steps call es (dispatch call e self))"
    using Cons.IH [of "dispatch call e self"] by (simp only: dispatch_last)
  with rendezvous_dispatch [of self call e]
  have "successively rendezvous
          (self # dispatch_steps call e self @ spin_steps call es (dispatch call e self))"
    by (rule successively_cons_append)
  then show ?case by simp
qed

subsection \<open>Clamping\<close>

lemma clamp_abs: "0 \<le> b \<Longrightarrow> \<bar>max (min c b) (- b)\<bar> \<le> (b::real)"
  by (auto simp: max_def min_def abs_if)

lemma distance_callback_bounded:
  "list_all cmd_bounded (cmd_vel self) \<Longrightarrow>
   list_all cmd_bounded (cmd_vel (distance_callback call msg self))"
proof -
  define e where "e = x msg - 13.0"
  define c where "c = max (min (fst (call (pid_distance self) e)) 0.2) (- 0.2)"
  have "\<bar>c\<bar> \<le> 0.2"
    unfolding c_def by (rule clamp_abs) simp
  then show "list_all cmd_bounded (cmd_vel self) \<Longrightarrow>
    list_all cmd_bounded (cmd_vel (distance_callback call msg self))"
    unfolding distance_callback_def Let_def split_beta
    unfolding e_def [symmetric] c_def [symmetric]
    by (auto simp: publish_def destroy_node_def Twist_default_def Vector3_default_def
        cmd_bounded_def)
qed

lemma angles_callback_bounded:
  "list_all cmd_bounded (cmd_vel self) \<Longrightarrow>
   list_all cmd_bounded (cmd_vel (angles_callback call msg self))"
proof -
  define c where "c = max (min (fst (call (pid_orientation self) (y msg))) 0.1) (- 0.1)"
  define d where "d \<longleftrightarrow> 0 < \<bar>y msg\<bar> \<and> \<bar>y msg\<bar> \<le> 0.055"
  have "\<bar>c\<bar> \<le> 0.1"
    unfolding c_def by (rule clamp_abs) simp
  then show "list_all cmd_bounded (cmd_vel self) \<Longrightarrow>
    list_all cmd_bounded (cmd_vel (angles_callback call msg self))"
    unfolding angles_callback_def Let_def split_beta
    unfolding c_def [symmetric] d_def [symmetric]
    by (simp add: check_target_reached_def publish_def destroy_node_def Twist_default_def
        Vector3_default_def cmd_bounded_def)
qed

lemma spin_bounded:
  "list_all cmd_bounded (cmd_vel self) \<Longrightarrow> list_all cmd_bounded (cmd_vel (spin call evs self))"
proof (induction evs arbitrary: self)
  case Nil
  then show ?case by simp
next
  case (Cons e es)
  have "list_all cmd_bounded (cmd_vel (dispatch call e self))"
    using Cons.prems by (cases e) (simp_all add: distance_callback_bounded angles_callback_bounded)
  then show ?case using Cons.IH by simp
qed

subsection \<open>The turn counters and the published commands\<close>

lemma distance_callback_turns:
  "turns_counted self \<Longrightarrow> turns_counted (distance_callback call msg self)"
proof -
  define e where "e = x msg - 13.0"
  define c where "c = max (min (fst (call (pid_distance self) e)) 0.2) (- 0.2)"
  show "turns_counted self \<Longrightarrow> turns_counted (distance_callback call msg self)"
    unfolding distance_callback_def Let_def split_beta
    unfolding e_def [symmetric] c_def [symmetric]
    by (simp add: publish_def destroy_node_def Twist_default_def Vector3_default_def
        turns_counted_def count_cmds_def)
qed

lemma angles_callback_turns:
  "turns_counted self \<Longrightarrow> turns_counted (angles_callback call msg self)"
proof -
  define c where "c = max (min (fst (call (pid_orientation self) (y msg))) 0.1) (- 0.1)"
  define d where "d \<longleftrightarrow> 0 < \<bar>y msg\<bar> \<and> \<bar>y msg\<bar> \<le> 0.055"
  show "turns_counted self \<Longrightarrow> turns_counted (angles_callback call msg self)"
    unfolding angles_callback_def Let_def split_beta
    unfolding c_def [symmetric] d_def [symmetric]
    by (simp add: check_target_reached_def publish_def destroy_node_def Twist_default_def
        Vector3_default_def turns_counted_def count_cmds_def)
qed

lemma spin_turns: "turns_counted self \<Longrightarrow> turns_counted (spin call evs self)"
proof (induction evs arbitrary: self)
  case Nil
  then show ?case by simp
next
  case (Cons e es)
  have "turns_counted (dispatch call e self)"
    using Cons.prems by (cases e) (simp_all add: distance_callback_turns angles_callback_turns)
  then show ?case using Cons.IH by simp
qed

lemma count_cmds_split:
  "count_cmds (\<lambda>v. v < 0) self + count_cmds (\<lambda>v. 0 < v) self = count_cmds (\<lambda>v. v \<noteq> 0) self"
proof -
  have "length (filter (\<lambda>t. z (angular_vel t) < 0) ts)
          + length (filter (\<lambda>t. 0 < z (angular_vel t)) ts)
        = length (filter (\<lambda>t. z (angular_vel t) \<noteq> 0) ts)" for ts :: "Twist list"
    by (induction ts) auto
  then show ?thesis unfolding count_cmds_def by (metis of_nat_add)
qed

lemma dispatch_turns_mono:
  "left_turns self \<le> left_turns (dispatch call e self)
   \<and> right_turns self \<le> right_turns (dispatch call e self)"
proof (cases e)
  case (Distance msg)
  define e' where "e' = x msg - 13.0"
  define c where "c = max (min (fst (call (pid_distance self) e')) 0.2) (- 0.2)"
  have "left_turns self = left_turns (distance_callback call msg self)
      \<and> right_turns self = right_turns (distance_callback call msg self)"
    unfolding distance_callback_def Let_def split_beta
    unfolding e'_def [symmetric] c_def [symmetric]
    by (simp add: publish_def destroy_node_def)
  with Distance show ?thesis by simp
next
  case (Angle msg)
  define c where "c = max (min (fst (call (pid_orientation self) (y msg))) 0.1) (- 0.1)"
  define d where "d \<longleftrightarrow> 0 < \<bar>y msg\<bar> \<and> \<bar>y msg\<bar> \<le> 0.055"
  have "left_turns self \<le> left_turns (angles_callback call msg self)
      \<and> right_turns self \<le> right_turns (angles_callback call msg self)"
    unfolding angles_callback_def Let_def split_beta
    unfolding c_def [symmetric] d_def [symmetric]
    by (simp add: check_target_reached_def publish_def destroy_node_def)
  with Angle show ?thesis by simp
qed

subsection \<open>After the transition: the flag stays and nothing is sent\<close>

lemma terminal_check:
  "successively terminal (self # check_target_reached_steps self)"
  by (simp add: check_target_reached_steps_def Let_def destroy_node_def terminal_def sends_def)

lemma terminal_distance:
  "successively terminal (self # distance_callback_steps call msg self)"
  by (simp add: distance_callback_steps_def Let_def split_beta destroy_node_def publish_def
      terminal_def sends_def)

lemma terminal_angles:
  "successively terminal (self # angles_callback_steps call msg self)"
  by (simp add: angles_callback_steps_def check_target_reached_steps_def Let_def split_beta
      destroy_node_def publish_def terminal_def sends_def)

lemma terminal_dispatch: "successively terminal (self # dispatch_steps call e self)"
  by (cases e) (simp_all only: dispatch_steps.simps terminal_distance terminal_angles)

lemma terminal_spin: "successively terminal (self # spin_steps call evs self)"
proof (induction evs arbitrary: self)
  case Nil
  show ?case by simp
next
  case (Cons e es)
  have "successively terminal
          (last (self # dispatch_steps call e self) # spin_steps call es (dispatch call e self))"
    using Cons.IH [of "dispatch call e self"] by (simp only: dispatch_last)
  with terminal_dispatch [of self call e]
  have "successively terminal
          (self # dispatch_steps call e self @ spin_steps call es (dispatch call e self))"
    by (rule successively_cons_append)
  then show ?case by simp
qed

lemma terminal_stays:
  assumes "successively terminal tr" and "i \<le> j" and "j < length tr"
    and "target_reached (tr ! i)"
  shows "target_reached (tr ! j)"
  using assms(2,3)
proof (induction j rule: dec_induct)
  case base
  show ?case by (rule assms(4))
next
  case (step n)
  from step.prems have "Suc n < length tr" by simp
  with assms(1) have "terminal (tr ! n) (tr ! Suc n)" by (rule successively_nth)
  moreover from step have "target_reached (tr ! n)" by simp
  ultimately show ?case by (simp add: terminal_def)
qed

lemma live_distance_steps:
  "live self \<Longrightarrow> list_all live (distance_callback_steps call msg self)"
proof -
  define e where "e = x msg - 13.0"
  define c where "c = max (min (fst (call (pid_distance self) e)) 0.2) (- 0.2)"
  show "live self \<Longrightarrow> list_all live (distance_callback_steps call msg self)"
    unfolding distance_callback_steps_def Let_def split_beta
    unfolding e_def [symmetric] c_def [symmetric]
    by (auto simp: destroy_node_def publish_def live_def)
qed

lemma live_angles_steps:
  "live self \<Longrightarrow> list_all live (angles_callback_steps call msg self)"
proof -
  define c where "c = max (min (fst (call (pid_orientation self) (y msg))) 0.1) (- 0.1)"
  define d where "d \<longleftrightarrow> 0 < \<bar>y msg\<bar> \<and> \<bar>y msg\<bar> \<le> 0.055"
  show "live self \<Longrightarrow> list_all live (angles_callback_steps call msg self)"
    unfolding angles_callback_steps_def check_target_reached_steps_def Let_def split_beta
    unfolding c_def [symmetric] d_def [symmetric]
    by (auto simp: destroy_node_def publish_def live_def)
qed

lemma live_dispatch_steps:
  "live self \<Longrightarrow> list_all live (dispatch_steps call e self)"
  by (cases e) (simp_all add: live_distance_steps live_angles_steps)

lemma live_spin_steps:
  "live self \<Longrightarrow> list_all live (self # spin_steps call evs self)"
proof (induction evs arbitrary: self)
  case Nil
  then show ?case by simp
next
  case (Cons e es)
  have d: "list_all live (self # dispatch_steps call e self)"
    using Cons.prems live_dispatch_steps [of self call e] by simp
  then have "live (last (self # dispatch_steps call e self))"
    by (metis last_in_set list.distinct(1) list_all_iff)
  then have "live (dispatch call e self)" by (simp only: dispatch_last)
  from Cons.IH [OF this] d show ?case by simp
qed

subsection \<open>Evaluation of the concrete runs\<close>

lemmas eval_defs =
  node0_def Controller_init_def pid_memory0_def pid_unit_dt_def distance_msg_def angle_msg_def
  distance_callback_def angles_callback_def distance_callback_steps_def
  angles_callback_steps_def check_target_reached_def check_target_reached_steps_def
  publish_def destroy_node_def Twist_default_def Vector3_default_def truthy_def abs_bool_def
  int_of_bool_def Let_def split_beta

lemma trace_reach_flags:
  "map (\<lambda>s. (target_reached s, distance_correct s, angle_correct s, node_destroyed s,
             length (cmd_vel s))) trace_reach
   = [(False, False, False, False, 0),
      (False, False, False, False, 0), (False, False, True, False, 0),
      (False, False, True, False, 1),
      (False, False, True, False, 1), (False, False, True, False, 1),
      (False, False, True, False, 1), (False, False, True, False, 1),
      (False, False, True, False, 2),
      (False, False, True, False, 2), (False, False, True, False, 2),
      (False, False, True, False, 2), (False, True, True, False, 2),
      (True, True, True, False, 2), (True, True, False, False, 2),
      (True, True, False, True, 2), (True, True, False, True, 3)]"
  by (simp add: trace_reach_def run_reach_def eval_defs)

text \<open>In \<open>run_reach\<close> the flag is set between the states 12 and 13 of the trace, the node
  is destroyed at state 15, and the last step is the call of \<open>publish\<close> of line 97, with
  linear velocity \<open>-0.2\<close>, on the destroyed node.\<close>

lemma publish_call_on_destroyed_node:
  "length trace_reach = 17
   \<and> \<not> target_reached (trace_reach ! 12) \<and> target_reached (trace_reach ! 13)
   \<and> node_destroyed (trace_reach ! 15)
   \<and> cmd_vel (trace_reach ! 15) = cmd_vel (trace_reach ! 12)
   \<and> cmd_vel (trace_reach ! 16) =
       cmd_vel (trace_reach ! 15) @
         [Twist_default\<lparr>linear_vel := (linear_vel Twist_default)\<lparr>x := - 0.2\<rparr>\<rparr>]
   \<and> trace_reach ! 16 = spin pid_unit_dt run_reach node0"
  by (simp add: trace_reach_def run_reach_def eval_defs)

section \<open>The claims\<close>

text \<open>
  C1. For every run, \<open>target_reached\<close> goes from false to true at most once, and no motion
  command is published after that transition. On the statement-level trace of any run
  from any state, with the step from state \<open>i\<close> to the next one setting the flag: any
  step that sets the flag is that step; every later step starts with the flag true and
  sends nothing; and, from a live start, every earlier call of \<open>publish\<close> is sent. The
  distance callback does call \<open>publish\<close> once more (line 97) in the invocation that sets
  the flag, but after \<open>destroy_node\<close> (line 85), so nothing is sent by it, as the
  last step of \<open>run_reach\<close> shows.
\<close>

theorem target_reached_once_and_quiet_after:
  assumes "tr = self # spin_steps call evs self"
    and "Suc i < length tr" and "\<not> target_reached (tr ! i)" and "target_reached (tr ! Suc i)"
    and "Suc j < length tr"
  shows "(\<not> target_reached (tr ! j) \<and> target_reached (tr ! Suc j) \<longrightarrow> j = i)
       \<and> (i < j \<longrightarrow> target_reached (tr ! j) \<and> \<not> sends (tr ! j) (tr ! Suc j))
       \<and> (live self \<and> j < i \<and> cmd_vel (tr ! Suc j) \<noteq> cmd_vel (tr ! j) \<longrightarrow>
            sends (tr ! j) (tr ! Suc j))"
proof -
  have t: "successively terminal tr"
    unfolding assms(1) by (rule terminal_spin)
  have after: "target_reached (tr ! j)" if "i < j"
    using t _ _ assms(4)
  proof (rule terminal_stays)
    from that show "Suc i \<le> j" by simp
    from assms(5) show "j < length tr" by simp
  qed
  have before: "target_reached (tr ! i)" if "j \<le> i" and "target_reached (tr ! j)"
    using t that(1) _ that(2)
  proof (rule terminal_stays)
    from assms(2) show "i < length tr" by simp
  qed
  have before': "target_reached (tr ! i)" if "j < i" and "target_reached (tr ! Suc j)"
    using t _ _ that(2)
  proof (rule terminal_stays)
    from that(1) show "Suc j \<le> i" by simp
    from assms(2) show "i < length tr" by simp
  qed
  have once: "\<not> target_reached (tr ! j) \<and> target_reached (tr ! Suc j) \<longrightarrow> j = i"
    using after before' assms(3) by (meson linorder_neqE_nat)
  have quiet: "i < j \<longrightarrow> target_reached (tr ! j) \<and> \<not> sends (tr ! j) (tr ! Suc j)"
  proof
    assume "i < j"
    then have r: "target_reached (tr ! j)" by (rule after)
    from t assms(5) have "terminal (tr ! j) (tr ! Suc j)" by (rule successively_nth)
    with r show "target_reached (tr ! j) \<and> \<not> sends (tr ! j) (tr ! Suc j)"
      by (simp add: terminal_def)
  qed
  have sent: "live self \<and> j < i \<and> cmd_vel (tr ! Suc j) \<noteq> cmd_vel (tr ! j) \<longrightarrow>
            sends (tr ! j) (tr ! Suc j)"
  proof
    assume h: "live self \<and> j < i \<and> cmd_vel (tr ! Suc j) \<noteq> cmd_vel (tr ! j)"
    then have "list_all live tr"
      unfolding assms(1) by (simp only: live_spin_steps)
    moreover from assms(5) have "j < length tr" by simp
    ultimately have "live (tr ! j)" by (simp add: list_all_length)
    moreover have "\<not> target_reached (tr ! j)"
      using before [of] h assms(3) by auto
    ultimately show "sends (tr ! j) (tr ! Suc j)"
      using h by (simp add: live_def sends_def)
  qed
  from once quiet sent show ?thesis by blast
qed

theorem target_reached_once_and_quiet_after_witness:
  "Suc 12 < length trace_reach
   \<and> \<not> target_reached (trace_reach ! 12) \<and> target_reached (trace_reach ! Suc 12)
   \<and> Suc 15 < length trace_reach \<and> (12::nat) < 15
   \<and> cmd_vel (trace_reach ! Suc 15) \<noteq> cmd_vel (trace_reach ! 15)
   \<and> node_destroyed (trace_reach ! 15)
   \<and> target_reached (trace_reach ! 15)
   \<and> \<not> sends (trace_reach ! 15) (trace_reach ! Suc 15)"
proof -
  have t: "trace_reach = node0 # spin_steps pid_unit_dt run_reach node0"
    by (simp add: trace_reach_def)
  have a: "Suc 12 < length trace_reach"
    and b: "\<not> target_reached (trace_reach ! 12)"
    and c: "target_reached (trace_reach ! Suc 12)"
    and d: "Suc 15 < length trace_reach"
    and e: "cmd_vel (trace_reach ! Suc 15) \<noteq> cmd_vel (trace_reach ! 15)"
    and f: "node_destroyed (trace_reach ! 15)"
    by (simp_all add: trace_reach_def run_reach_def eval_defs)
  from target_reached_once_and_quiet_after [OF t a b c d] a b c d e f show ?thesis by simp
qed

text \<open>
  C2. Whenever \<open>target_reached\<close> is set to true, by the inline check of the distance
  callback or by \<open>check_target_reached\<close>, both convergence flags are true at that instant.
  Stated on the trace of any run from any state, and on the trace of
  \<open>check_target_reached\<close> alone: if \<open>target_reached\<close> is false in one state and true in the
  next, then \<open>distance_correct\<close> and \<open>angle_correct\<close> are true in both.
\<close>

theorem target_reached_set_with_both_flags:
  assumes "tr = self # spin_steps call evs self \<or> tr = self # check_target_reached_steps self"
    and "Suc i < length tr"
    and "\<not> target_reached (tr ! i)" and "target_reached (tr ! Suc i)"
  shows "distance_correct (tr ! i) \<and> angle_correct (tr ! i)
       \<and> distance_correct (tr ! Suc i) \<and> angle_correct (tr ! Suc i)"
proof -
  have "successively rendezvous tr"
    using assms(1) rendezvous_spin [of self call evs] rendezvous_check [of self] by auto
  then have "rendezvous (tr ! i) (tr ! Suc i)"
    using assms(2) by (rule successively_nth)
  with assms(3,4) show ?thesis by (simp add: rendezvous_def)
qed

theorem target_reached_set_with_both_flags_witness:
  "Suc 12 < length trace_reach
   \<and> \<not> target_reached (trace_reach ! 12) \<and> target_reached (trace_reach ! Suc 12)
   \<and> distance_correct (trace_reach ! 12) \<and> angle_correct (trace_reach ! 12)
   \<and> distance_correct (trace_reach ! Suc 12) \<and> angle_correct (trace_reach ! Suc 12)"
proof -
  have t: "trace_reach = node0 # spin_steps pid_unit_dt run_reach node0
           \<or> trace_reach = node0 # check_target_reached_steps node0"
    by (simp add: trace_reach_def)
  have a: "Suc 12 < length trace_reach"
    and b: "\<not> target_reached (trace_reach ! 12)"
    and c: "target_reached (trace_reach ! Suc 12)"
    by (simp_all add: trace_reach_def run_reach_def eval_defs)
  from target_reached_set_with_both_flags [OF t a b c] a b c show ?thesis by simp
qed

text \<open>
  C3. A call of \<open>check_target_reached\<close> made from the angle callback never sets
  \<open>target_reached\<close>, because \<open>angle_correct\<close> is assigned False just before it; so
  \<open>target_reached\<close> can only become true inside the distance callback. In order: the check
  does nothing on a state whose \<open>angle_correct\<close> is false; the angle callback leaves
  \<open>target_reached\<close> as it was, in its result and in every state of its trace; in the
  correction branch the trace has five states, the check adds none, and the state it is
  called on (the fifth, which is also the result) has \<open>angle_correct\<close> false; and in any
  run, a message whose callback turns \<open>target_reached\<close> from false to true is a distance
  message.
\<close>

theorem angles_callback_never_sets_target_reached:
  "(\<not> angle_correct self \<longrightarrow>
      check_target_reached self = self \<and> check_target_reached_steps self = [])
   \<and> target_reached (angles_callback call msg self) = target_reached self
   \<and> list_all (\<lambda>t. target_reached t = target_reached self) (angles_callback_steps call msg self)
   \<and> (\<not> target_reached self \<and> \<not> (0 < \<bar>y msg\<bar> \<and> \<bar>y msg\<bar> \<le> 0.055) \<longrightarrow>
         length (angles_callback_steps call msg self) = 5
       \<and> \<not> angle_correct (angles_callback_steps call msg self ! 4)
       \<and> angles_callback call msg self = angles_callback_steps call msg self ! 4)
   \<and> (\<not> target_reached (spin call pre s0) \<and> target_reached (spin call (pre @ [e]) s0) \<longrightarrow>
         (\<exists>m. e = Distance m))"
proof -
  have a: "\<not> angle_correct self \<longrightarrow>
            check_target_reached self = self \<and> check_target_reached_steps self = []"
    by (simp add: check_target_reached_def check_target_reached_steps_def)
  have b: "target_reached (angles_callback call msg self) = target_reached self"
    by (rule angles_callback_target_reached)
  have c: "list_all (\<lambda>t. target_reached t = target_reached self)
             (angles_callback_steps call msg self)"
    by (simp add: angles_callback_steps_def check_target_reached_steps_def Let_def split_beta
        publish_def destroy_node_def)
  have d: "\<not> target_reached self \<and> \<not> (0 < \<bar>y msg\<bar> \<and> \<bar>y msg\<bar> \<le> 0.055) \<longrightarrow>
             length (angles_callback_steps call msg self) = 5
           \<and> \<not> angle_correct (angles_callback_steps call msg self ! 4)
           \<and> angles_callback call msg self = angles_callback_steps call msg self ! 4"
    by (simp add: angles_callback_steps_def angles_callback_def check_target_reached_steps_def
        check_target_reached_def Let_def split_beta publish_def destroy_node_def)
  have e: "\<not> target_reached (spin call pre s0) \<and> target_reached (spin call (pre @ [e]) s0) \<longrightarrow>
             (\<exists>m. e = Distance m)"
    by (cases e) (simp_all add: spin_append angles_callback_target_reached)
  from a b c d e show ?thesis by blast
qed

theorem angles_callback_never_sets_target_reached_witness:
  "\<not> angle_correct (spin pid_unit_dt run_near node0)
   \<and> distance_correct (spin pid_unit_dt run_near node0)
   \<and> \<not> target_reached (spin pid_unit_dt run_near node0)
   \<and> \<not> (0 < \<bar>y (angle_msg 0.2)\<bar> \<and> \<bar>y (angle_msg 0.2)\<bar> \<le> 0.055)
   \<and> \<not> target_reached
        (angles_callback pid_unit_dt (angle_msg 0.2) (spin pid_unit_dt run_near node0))
   \<and> length (angles_callback_steps pid_unit_dt (angle_msg 0.2) (spin pid_unit_dt run_near node0))
       = 5
   \<and> \<not> target_reached
        (spin pid_unit_dt [Angle (angle_msg 0.03125), Distance (distance_msg 73)] node0)
   \<and> target_reached
        (spin pid_unit_dt
           ([Angle (angle_msg 0.03125), Distance (distance_msg 73)]
              @ [Distance (distance_msg 13.125)]) node0)
   \<and> (\<exists>m. Distance (distance_msg 13.125) = Distance m)"
proof -
  have h: "\<not> angle_correct (spin pid_unit_dt run_near node0)
     \<and> distance_correct (spin pid_unit_dt run_near node0)
     \<and> \<not> target_reached (spin pid_unit_dt run_near node0)
     \<and> \<not> (0 < \<bar>y (angle_msg 0.2)\<bar> \<and> \<bar>y (angle_msg 0.2)\<bar> \<le> 0.055)
     \<and> \<not> target_reached
        (spin pid_unit_dt [Angle (angle_msg 0.03125), Distance (distance_msg 73)] node0)
     \<and> target_reached
        (spin pid_unit_dt
           ([Angle (angle_msg 0.03125), Distance (distance_msg 73)]
              @ [Distance (distance_msg 13.125)]) node0)"
    by (simp add: run_near_def eval_defs)
  from h angles_callback_never_sets_target_reached
         [of "spin pid_unit_dt run_near node0" pid_unit_dt "angle_msg 0.2"
             "[Angle (angle_msg 0.03125), Distance (distance_msg 73)]" node0
             "Distance (distance_msg 13.125)"]
  show ?thesis by blast
qed

text \<open>
  C4. For a distance sample processed while \<open>target_reached\<close> is false for which
  neither branch condition holds, no motion command is published. This fails: line 97
  is outside the \<open>if\<close>/\<open>elif\<close>, so the untouched \<open>Twist()\<close> is published. At the start, a
  sample of 13.125 gives \<open>distance_error = 0.125\<close> and a positive control signal; neither
  branch is taken and the all-zero command is published.
\<close>

theorem unmatched_branch_publishes_counterexample:
  "\<not> target_reached node0
   \<and> \<not> (max (min (fst (pid_unit_dt (pid_distance node0) (x (distance_msg 13.125) - 13.0))) 0.2)
           (- 0.2) < 0
         \<or> x (distance_msg 13.125) - 13.0 > 0.3)
   \<and> \<not> truthy (abs_bool (x (distance_msg 13.125) - 13.0 < 0))
   \<and> cmd_vel node0 = []
   \<and> cmd_vel (distance_callback pid_unit_dt (distance_msg 13.125) node0) = [Twist_default]"
  by (simp add: eval_defs)

text \<open>
  C4 as amended: for such a sample exactly one command is published, the default
  \<open>Twist\<close> with every component zero; the PID is evaluated and the sample is logged, and
  no other field changes (in particular neither convergence flag).
\<close>

theorem unmatched_branch_publishes_default_twist:
  assumes "\<not> target_reached self"
    and "call (pid_distance self) (x msg - 13.0) = (out, pid)"
    and "\<not> (max (min out 0.2) (- 0.2) < 0 \<or> x msg - 13.0 > 0.3)"
    and "\<not> truthy (abs_bool (x msg - 13.0 < 0))"
  shows "distance_callback call msg self =
           self\<lparr>pid_distance := pid,
                time := time self @ [int (length (time self))],
                distance_errors := distance_errors self @ [x msg - 13.0],
                cmd_vel := cmd_vel self @ [Twist_default]\<rparr>"
  using assms by (simp add: distance_callback_def Let_def publish_def)

theorem unmatched_branch_publishes_default_twist_witness:
  "\<not> target_reached node0
   \<and> \<not> (max (min (fst (pid_unit_dt (pid_distance node0) (x (distance_msg 13.125) - 13.0))) 0.2)
           (- 0.2) < 0
         \<or> x (distance_msg 13.125) - 13.0 > 0.3)
   \<and> \<not> truthy (abs_bool (x (distance_msg 13.125) - 13.0 < 0))
   \<and> distance_callback pid_unit_dt (distance_msg 13.125) node0 =
       node0\<lparr>pid_distance :=
               snd (pid_unit_dt (pid_distance node0) (x (distance_msg 13.125) - 13.0)),
             time := time node0 @ [int (length (time node0))],
             distance_errors := distance_errors node0 @ [x (distance_msg 13.125) - 13.0],
             cmd_vel := cmd_vel node0 @ [Twist_default]\<rparr>"
proof -
  have a: "\<not> target_reached node0"
    and b: "pid_unit_dt (pid_distance node0) (x (distance_msg 13.125) - 13.0)
            = (fst (pid_unit_dt (pid_distance node0) (x (distance_msg 13.125) - 13.0)),
               snd (pid_unit_dt (pid_distance node0) (x (distance_msg 13.125) - 13.0)))"
    and c: "\<not> (max (min (fst (pid_unit_dt (pid_distance node0)
                                 (x (distance_msg 13.125) - 13.0))) 0.2) (- 0.2) < 0
               \<or> x (distance_msg 13.125) - 13.0 > 0.3)"
    and d: "\<not> truthy (abs_bool (x (distance_msg 13.125) - 13.0 < 0))"
    by (simp_all add: eval_defs)
  from unmatched_branch_publishes_default_twist
         [where call = pid_unit_dt and self = node0 and msg = "distance_msg 13.125", OF a b c d]
       a c d
  show ?thesis by blast
qed

text \<open>
  C5. When the first branch of the distance loop is not taken, the second is entered
  exactly when \<open>abs(distance_error < 0)\<close> is non-zero, that is exactly when
  \<open>distance_error < 0\<close>; it sets \<open>distance_correct\<close> to false and commands the negated
  clamped control signal as linear velocity. When the error is not negative the branch
  is not entered: \<open>distance_correct\<close> keeps its value and the command is the default one.
\<close>

theorem second_branch_iff_negative_error:
  assumes "\<not> target_reached self"
    and "call (pid_distance self) (x msg - 13.0) = (out, pid)"
    and "control_signal = max (min out 0.2) (- 0.2)"
    and "distance_error = x msg - 13.0"
    and "\<not> (control_signal < 0 \<or> distance_error > 0.3)"
  shows "(truthy (abs_bool (distance_error < 0)) \<longleftrightarrow> distance_error < 0)
       \<and> (distance_error < 0 \<longrightarrow>
            distance_callback call msg self =
              self\<lparr>pid_distance := pid,
                   time := time self @ [int (length (time self))],
                   distance_errors := distance_errors self @ [distance_error],
                   distance_correct := False,
                   cmd_vel := cmd_vel self @
                     [Twist_default\<lparr>linear_vel :=
                        (linear_vel Twist_default)\<lparr>x := - control_signal\<rparr>\<rparr>]\<rparr>)
       \<and> (\<not> distance_error < 0 \<longrightarrow>
            distance_correct (distance_callback call msg self) = distance_correct self
          \<and> cmd_vel (distance_callback call msg self) = cmd_vel self @ [Twist_default])"
  using assms by (simp add: distance_callback_def Let_def publish_def truthy_abs_bool)

theorem second_branch_iff_negative_error_witness:
  "\<not> target_reached node0
   \<and> \<not> (max (min (fst (pid_unit_dt (pid_distance node0) (x (distance_msg 12) - 13.0))) 0.2)
           (- 0.2) < 0
         \<or> x (distance_msg 12) - 13.0 > 0.3)
   \<and> x (distance_msg 12) - 13.0 < 0
   \<and> truthy (abs_bool (x (distance_msg 12) - 13.0 < 0))
   \<and> \<not> distance_correct (distance_callback pid_unit_dt (distance_msg 12) node0)
   \<and> cmd_vel (distance_callback pid_unit_dt (distance_msg 12) node0) =
       [Twist_default\<lparr>linear_vel := (linear_vel Twist_default)\<lparr>x := - 0.2\<rparr>\<rparr>]"
proof -
  have a: "\<not> target_reached node0"
    and b: "pid_unit_dt (pid_distance node0) (x (distance_msg 12) - 13.0)
            = (fst (pid_unit_dt (pid_distance node0) (x (distance_msg 12) - 13.0)),
               snd (pid_unit_dt (pid_distance node0) (x (distance_msg 12) - 13.0)))"
    and c: "\<not> (max (min (fst (pid_unit_dt (pid_distance node0)
                                 (x (distance_msg 12) - 13.0))) 0.2) (- 0.2) < 0
               \<or> x (distance_msg 12) - 13.0 > 0.3)"
    and d: "x (distance_msg 12) - 13.0 < 0"
    and e: "max (min (fst (pid_unit_dt (pid_distance node0) (x (distance_msg 12) - 13.0))) 0.2)
              (- 0.2) = 0.2"
    and f: "cmd_vel node0 = []"
    by (simp_all add: eval_defs)
  from second_branch_iff_negative_error
         [where call = pid_unit_dt and self = node0 and msg = "distance_msg 12",
          OF a b refl refl c]
       a c d e f
  show ?thesis by simp
qed

text \<open>
  C6. For an angle sample with \<open>0 < |angle_variation| \<le> 0.055\<close> processed while
  \<open>target_reached\<close> is false: the commanded angular velocity is exactly 0,
  \<open>angle_correct\<close> becomes true, the orientation PID is not evaluated, neither turn
  counter changes, and no termination check is made. The result is the state with the
  sample logged, the flag set and the default command published, whatever the PID call
  is; the trace has the three states of these statements; and \<open>target_reached\<close> stays
  false even when \<open>distance_correct\<close> holds, where a check on the result would set it.
\<close>

theorem dead_band_sample:
  assumes "\<not> target_reached self" and "0 < \<bar>y msg\<bar>" and "\<bar>y msg\<bar> \<le> 0.055"
  shows "angles_callback call msg self =
           self\<lparr>orientation_errors := orientation_errors self @ [y msg],
                angle_correct := True,
                cmd_vel := cmd_vel self @ [Twist_default]\<rparr>
       \<and> z (angular_vel (last (cmd_vel (angles_callback call msg self)))) = 0
       \<and> angle_correct (angles_callback call msg self)
       \<and> pid_orientation (angles_callback call msg self) = pid_orientation self
       \<and> left_turns (angles_callback call msg self) = left_turns self
       \<and> right_turns (angles_callback call msg self) = right_turns self
       \<and> \<not> target_reached (angles_callback call msg self)
       \<and> node_destroyed (angles_callback call msg self) = node_destroyed self
       \<and> length (angles_callback_steps call msg self) = 3
       \<and> (distance_correct self \<longrightarrow>
            target_reached (check_target_reached (angles_callback call msg self)))"
proof -
  have eq: "angles_callback call msg self =
           self\<lparr>orientation_errors := orientation_errors self @ [y msg],
                angle_correct := True,
                cmd_vel := cmd_vel self @ [Twist_default]\<rparr>"
    using assms
    by (simp add: angles_callback_def Let_def publish_def Twist_default_def Vector3_default_def)
  have len: "length (angles_callback_steps call msg self) = 3"
    using assms by (simp add: angles_callback_steps_def Let_def)
  show ?thesis
    unfolding eq using assms(1) len
    by (simp add: check_target_reached_def destroy_node_def Twist_default_def Vector3_default_def)
qed

theorem dead_band_sample_witness:
  "\<not> target_reached (spin pid_unit_dt run_near node0)
   \<and> 0 < \<bar>y (angle_msg 0.03125)\<bar> \<and> \<bar>y (angle_msg 0.03125)\<bar> \<le> 0.055
   \<and> distance_correct (spin pid_unit_dt run_near node0)
   \<and> angle_correct (angles_callback pid_unit_dt (angle_msg 0.03125)
                       (spin pid_unit_dt run_near node0))
   \<and> \<not> target_reached (angles_callback pid_unit_dt (angle_msg 0.03125)
                           (spin pid_unit_dt run_near node0))
   \<and> target_reached (check_target_reached
                       (angles_callback pid_unit_dt (angle_msg 0.03125)
                          (spin pid_unit_dt run_near node0)))"
proof -
  have a: "\<not> target_reached (spin pid_unit_dt run_near node0)"
    and b: "0 < \<bar>y (angle_msg 0.03125)\<bar>"
    and c: "\<bar>y (angle_msg 0.03125)\<bar> \<le> 0.055"
    and d: "distance_correct (spin pid_unit_dt run_near node0)"
    by (simp_all add: run_near_def eval_defs)
  from dead_band_sample [where call = pid_unit_dt, OF a b c] a b c d show ?thesis by blast
qed

text \<open>
  C7. A callback invoked when \<open>target_reached\<close> is already true leaves every field
  unchanged and publishes nothing. Both callbacks return the state they were given and
  execute no statement, and so does any sequence of callbacks.
\<close>

theorem callbacks_noop_after_target_reached:
  assumes "target_reached self"
  shows "distance_callback call msg self = self \<and> angles_callback call msg' self = self
       \<and> distance_callback_steps call msg self = [] \<and> angles_callback_steps call msg' self = []
       \<and> spin call evs self = self"
  using assms spin_target_reached [of self call evs]
  by (simp add: distance_callback_def angles_callback_def distance_callback_steps_def
      angles_callback_steps_def)

theorem callbacks_noop_after_target_reached_witness:
  "target_reached (spin pid_unit_dt run_reach node0)
   \<and> distance_callback pid_unit_dt (distance_msg 20) (spin pid_unit_dt run_reach node0)
       = spin pid_unit_dt run_reach node0
   \<and> angles_callback pid_unit_dt (angle_msg 0.2) (spin pid_unit_dt run_reach node0)
       = spin pid_unit_dt run_reach node0
   \<and> spin pid_unit_dt run_turns (spin pid_unit_dt run_reach node0)
       = spin pid_unit_dt run_reach node0"
proof -
  have a: "target_reached (spin pid_unit_dt run_reach node0)"
    by (simp add: run_reach_def eval_defs)
  from callbacks_noop_after_target_reached
         [where call = pid_unit_dt and msg = "distance_msg 20" and msg' = "angle_msg 0.2"
            and evs = run_turns, OF a] a
  show ?thesis by blast
qed

text \<open>
  C8. The clamped distance control signal, which is the commanded linear velocity, has
  magnitude at most 0.2, and the clamped orientation control signal, whose negation is
  the commanded angular velocity, has magnitude at most 0.1, whatever the PID returns.
  Every command published in a run from the initial state is within both limits; the
  linear velocity of the command of a distance sample is the clamped signal, its
  negation or zero; the angular velocity of a correction is the negated clamped signal.
\<close>

theorem commands_clamped:
  "list_all cmd_bounded (cmd_vel (spin call evs (Controller_init p0)))
   \<and> (\<not> target_reached self \<longrightarrow>
        (\<exists>c. c = max (min (fst (call (pid_distance self) (x msg - 13.0))) 0.2) (- 0.2)
           \<and> \<bar>c\<bar> \<le> 0.2
           \<and> x (linear_vel (last (cmd_vel (distance_callback call msg self)))) \<in> {c, - c, 0}))
   \<and> (\<not> target_reached self \<and> \<not> (0 < \<bar>y msg\<bar> \<and> \<bar>y msg\<bar> \<le> 0.055) \<longrightarrow>
        (\<exists>c. c = max (min (fst (call (pid_orientation self) (y msg))) 0.1) (- 0.1)
           \<and> \<bar>c\<bar> \<le> 0.1
           \<and> z (angular_vel (last (cmd_vel (angles_callback call msg self)))) = - c))"
proof -
  have a: "list_all cmd_bounded (cmd_vel (spin call evs (Controller_init p0)))"
    by (rule spin_bounded) (simp add: Controller_init_def)
  have b: "\<not> target_reached self \<longrightarrow>
        (\<exists>c. c = max (min (fst (call (pid_distance self) (x msg - 13.0))) 0.2) (- 0.2)
           \<and> \<bar>c\<bar> \<le> 0.2
           \<and> x (linear_vel (last (cmd_vel (distance_callback call msg self)))) \<in> {c, - c, 0})"
  proof -
    define e where "e = x msg - 13.0"
    define c where "c = max (min (fst (call (pid_distance self) e)) 0.2) (- 0.2)"
    have "\<bar>c\<bar> \<le> 0.2"
      unfolding c_def by (rule clamp_abs) simp
    then show ?thesis
      unfolding distance_callback_def Let_def split_beta
      unfolding e_def [symmetric] c_def [symmetric]
      by (simp add: publish_def destroy_node_def Twist_default_def Vector3_default_def)
  qed
  have c: "\<not> target_reached self \<and> \<not> (0 < \<bar>y msg\<bar> \<and> \<bar>y msg\<bar> \<le> 0.055) \<longrightarrow>
        (\<exists>c. c = max (min (fst (call (pid_orientation self) (y msg))) 0.1) (- 0.1)
           \<and> \<bar>c\<bar> \<le> 0.1
           \<and> z (angular_vel (last (cmd_vel (angles_callback call msg self)))) = - c)"
  proof -
    define c where "c = max (min (fst (call (pid_orientation self) (y msg))) 0.1) (- 0.1)"
    define d where "d \<longleftrightarrow> 0 < \<bar>y msg\<bar> \<and> \<bar>y msg\<bar> \<le> 0.055"
    have "\<bar>c\<bar> \<le> 0.1"
      unfolding c_def by (rule clamp_abs) simp
    then show ?thesis
      unfolding angles_callback_def Let_def split_beta
      unfolding c_def [symmetric] d_def [symmetric]
      by (simp add: check_target_reached_def publish_def destroy_node_def Twist_default_def
          Vector3_default_def)
  qed
  from a b c show ?thesis by blast
qed

theorem commands_clamped_witness:
  "list_all cmd_bounded (cmd_vel (spin pid_unit_dt run_reach (Controller_init pid_memory0)))
   \<and> length (cmd_vel (spin pid_unit_dt run_reach (Controller_init pid_memory0))) = 3
   \<and> \<not> target_reached node0
   \<and> \<not> (0 < \<bar>y (angle_msg 0.2)\<bar> \<and> \<bar>y (angle_msg 0.2)\<bar> \<le> 0.055)
   \<and> fst (pid_unit_dt (pid_distance node0) (x (distance_msg 73) - 13.0)) = - 64.8
   \<and> x (linear_vel (last (cmd_vel (distance_callback pid_unit_dt (distance_msg 73) node0))))
       = - 0.2
   \<and> z (angular_vel (last (cmd_vel (angles_callback pid_unit_dt (angle_msg 0.2) node0))))
       = 0.1"
proof -
  have h: "length (cmd_vel (spin pid_unit_dt run_reach (Controller_init pid_memory0))) = 3
     \<and> \<not> target_reached node0
     \<and> \<not> (0 < \<bar>y (angle_msg 0.2)\<bar> \<and> \<bar>y (angle_msg 0.2)\<bar> \<le> 0.055)
     \<and> fst (pid_unit_dt (pid_distance node0) (x (distance_msg 73) - 13.0)) = - 64.8
     \<and> x (linear_vel (last (cmd_vel (distance_callback pid_unit_dt (distance_msg 73) node0))))
         = - 0.2
     \<and> z (angular_vel (last (cmd_vel (angles_callback pid_unit_dt (angle_msg 0.2) node0))))
         = 0.1"
    by (simp add: run_reach_def eval_defs)
  from commands_clamped [of pid_unit_dt run_reach pid_memory0 node0 "distance_msg 73"] h
  show ?thesis by blast
qed

text \<open>
  C9. For any sequence of orientation corrections, \<open>left_turns + right_turns\<close> is the
  number of corrections with a non-zero commanded angular velocity: a negative one
  increments \<open>left_turns\<close>, a positive one \<open>right_turns\<close>, a zero one neither; both counters
  are non-negative and never decrease. After any run from the initial state
  \<open>left_turns\<close> is the number of published commands of negative angular velocity,
  \<open>right_turns\<close> the number of those of positive angular velocity, and their sum the number
  of those of non-zero angular velocity (the commands of distance samples and of the
  dead band have angular velocity zero); one more message decreases neither counter; and
  a correction publishes the negated clamped signal \<open>w\<close> and adds one to \<open>left_turns\<close>
  when \<open>w < 0\<close>, one to \<open>right_turns\<close> when \<open>0 < w\<close>.
\<close>

theorem turn_accounting:
  "left_turns (spin call evs (Controller_init p0))
     = count_cmds (\<lambda>v. v < 0) (spin call evs (Controller_init p0))
   \<and> right_turns (spin call evs (Controller_init p0))
     = count_cmds (\<lambda>v. 0 < v) (spin call evs (Controller_init p0))
   \<and> left_turns (spin call evs (Controller_init p0))
       + right_turns (spin call evs (Controller_init p0))
     = count_cmds (\<lambda>v. v \<noteq> 0) (spin call evs (Controller_init p0))
   \<and> 0 \<le> left_turns (spin call evs (Controller_init p0))
   \<and> 0 \<le> right_turns (spin call evs (Controller_init p0))
   \<and> left_turns (spin call evs (Controller_init p0))
       \<le> left_turns (spin call (evs @ [e]) (Controller_init p0))
   \<and> right_turns (spin call evs (Controller_init p0))
       \<le> right_turns (spin call (evs @ [e]) (Controller_init p0))
   \<and> (\<not> target_reached self \<and> \<not> (0 < \<bar>y msg\<bar> \<and> \<bar>y msg\<bar> \<le> 0.055) \<longrightarrow>
        (\<exists>w. w = - max (min (fst (call (pid_orientation self) (y msg))) 0.1) (- 0.1)
           \<and> cmd_vel (angles_callback call msg self)
               = cmd_vel self @
                   [Twist_default\<lparr>angular_vel := (angular_vel Twist_default)\<lparr>z := w\<rparr>\<rparr>]
           \<and> left_turns (angles_callback call msg self)
               = left_turns self + (if w < 0 then 1 else 0)
           \<and> right_turns (angles_callback call msg self)
               = right_turns self + (if 0 < w then 1 else 0)))"
proof -
  have inv: "turns_counted (spin call evs (Controller_init p0))"
    by (rule spin_turns) (simp add: turns_counted_def count_cmds_def Controller_init_def)
  have l: "left_turns (spin call evs (Controller_init p0))
     = count_cmds (\<lambda>v. v < 0) (spin call evs (Controller_init p0))"
    and r: "right_turns (spin call evs (Controller_init p0))
     = count_cmds (\<lambda>v. 0 < v) (spin call evs (Controller_init p0))"
    using inv by (simp_all add: turns_counted_def)
  have s: "left_turns (spin call evs (Controller_init p0))
             + right_turns (spin call evs (Controller_init p0))
     = count_cmds (\<lambda>v. v \<noteq> 0) (spin call evs (Controller_init p0))"
    using l r count_cmds_split [of "spin call evs (Controller_init p0)"] by simp
  have n: "0 \<le> left_turns (spin call evs (Controller_init p0))"
      "0 \<le> right_turns (spin call evs (Controller_init p0))"
    using l r by (simp_all add: count_cmds_def)
  have m: "left_turns (spin call evs (Controller_init p0))
       \<le> left_turns (spin call (evs @ [e]) (Controller_init p0))"
     "right_turns (spin call evs (Controller_init p0))
       \<le> right_turns (spin call (evs @ [e]) (Controller_init p0))"
    using dispatch_turns_mono [of "spin call evs (Controller_init p0)" call e]
    by (simp_all add: spin_append)
  have st: "\<not> target_reached self \<and> \<not> (0 < \<bar>y msg\<bar> \<and> \<bar>y msg\<bar> \<le> 0.055) \<longrightarrow>
        (\<exists>w. w = - max (min (fst (call (pid_orientation self) (y msg))) 0.1) (- 0.1)
           \<and> cmd_vel (angles_callback call msg self)
               = cmd_vel self @
                   [Twist_default\<lparr>angular_vel := (angular_vel Twist_default)\<lparr>z := w\<rparr>\<rparr>]
           \<and> left_turns (angles_callback call msg self)
               = left_turns self + (if w < 0 then 1 else 0)
           \<and> right_turns (angles_callback call msg self)
               = right_turns self + (if 0 < w then 1 else 0))"
  proof -
    define c where "c = max (min (fst (call (pid_orientation self) (y msg))) 0.1) (- 0.1)"
    define d where "d \<longleftrightarrow> 0 < \<bar>y msg\<bar> \<and> \<bar>y msg\<bar> \<le> 0.055"
    show ?thesis
      unfolding angles_callback_def Let_def split_beta
      unfolding c_def [symmetric] d_def [symmetric]
      by (simp add: check_target_reached_def publish_def destroy_node_def)
  qed
  from l r s n m st show ?thesis by blast
qed

theorem turn_accounting_witness:
  "left_turns (spin pid_unit_dt run_turns (Controller_init pid_memory0)) = 1
   \<and> right_turns (spin pid_unit_dt run_turns (Controller_init pid_memory0)) = 1
   \<and> count_cmds (\<lambda>v. v \<noteq> 0) (spin pid_unit_dt run_turns (Controller_init pid_memory0)) = 2
   \<and> length (cmd_vel (spin pid_unit_dt run_turns (Controller_init pid_memory0))) = 3
   \<and> \<not> target_reached node0
   \<and> \<not> (0 < \<bar>y (angle_msg 0.2)\<bar> \<and> \<bar>y (angle_msg 0.2)\<bar> \<le> 0.055)
   \<and> right_turns (angles_callback pid_unit_dt (angle_msg 0.2) node0) = 1
   \<and> left_turns (angles_callback pid_unit_dt (angle_msg 0.2) node0) = 0"
proof -
  have h: "left_turns (spin pid_unit_dt run_turns (Controller_init pid_memory0)) = 1
     \<and> right_turns (spin pid_unit_dt run_turns (Controller_init pid_memory0)) = 1
     \<and> length (cmd_vel (spin pid_unit_dt run_turns (Controller_init pid_memory0))) = 3
     \<and> \<not> target_reached node0
     \<and> \<not> (0 < \<bar>y (angle_msg 0.2)\<bar> \<and> \<bar>y (angle_msg 0.2)\<bar> \<le> 0.055)
     \<and> right_turns (angles_callback pid_unit_dt (angle_msg 0.2) node0) = 1
     \<and> left_turns (angles_callback pid_unit_dt (angle_msg 0.2) node0) = 0"
    by (simp add: run_turns_def eval_defs)
  from turn_accounting
         [of pid_unit_dt run_turns pid_memory0 "Angle (angle_msg 0.2)" node0 "angle_msg 0.2"] h
  show ?thesis by simp
qed

text \<open>
  C10. For every distance sample processed before termination, the error fed to the
  distance PID is the sample minus the distance offset, where the offset is 13.0 while
  the PID instance itself is configured with setpoint 6.0. The distance PID after the
  callback is the one the call returns on the input \<open>x - 13\<close>, the same value is
  appended to \<open>distance_errors\<close>, and the instance built by \<open>__init__\<close> has gains 1.0, 0.2,
  0.0 and setpoint 6.0.
\<close>

theorem distance_error_offset_and_setpoint:
  assumes "\<not> target_reached self"
  shows "pid_distance (distance_callback call msg self)
           = snd (call (pid_distance self) (x msg - 13.0))
       \<and> distance_errors (distance_callback call msg self)
           = distance_errors self @ [x msg - 13.0]
       \<and> setpoint (pid_distance (Controller_init p0)) = 6.0
       \<and> Kp (pid_distance (Controller_init p0)) = 1.0
       \<and> Ki (pid_distance (Controller_init p0)) = 0.2
       \<and> Kd (pid_distance (Controller_init p0)) = 0.0"
proof -
  define e where "e = x msg - 13.0"
  define c where "c = max (min (fst (call (pid_distance self) e)) 0.2) (- 0.2)"
  have "pid_distance (distance_callback call msg self) = snd (call (pid_distance self) e)
      \<and> distance_errors (distance_callback call msg self) = distance_errors self @ [e]"
    unfolding distance_callback_def Let_def split_beta
    unfolding e_def [symmetric] c_def [symmetric]
    using assms by (simp add: publish_def destroy_node_def)
  then show ?thesis
    unfolding e_def by (simp add: Controller_init_def)
qed

theorem distance_error_offset_and_setpoint_witness:
  "\<not> target_reached node0
   \<and> distance_errors (distance_callback pid_unit_dt (distance_msg 73) node0) = [60]
   \<and> memory (pid_distance (distance_callback pid_unit_dt (distance_msg 73) node0))
       = (- 10.8, Some 60)
   \<and> setpoint (pid_distance (Controller_init pid_memory0)) = 6.0"
proof -
  have a: "\<not> target_reached node0"
    and b: "distance_errors node0 = []"
    and c: "x (distance_msg 73) - 13.0 = 60"
    and d: "memory (snd (pid_unit_dt (pid_distance node0) 60)) = (- 10.8, Some 60)"
    by (simp_all add: eval_defs)
  from distance_error_offset_and_setpoint
         [where call = pid_unit_dt and msg = "distance_msg 73" and ?p0.0 = pid_memory0, OF a]
       a b c d
  show ?thesis by simp
qed

end
